theory Spec2Isabelle
  imports Main "HOL-Library.Sublist" "HOL-Library.AList"
begin

section \<open>Shared helpers: JavaScript values the handlers pass around\<close>

text \<open>
  JSON-compatible data as the handlers pass it around (tool inputs and outputs,
  configuration maps, context snapshots, event payloads, stored documents). The numbers
  that occur in these values are counters and milliseconds, so a number is an integer;
  \<open>JDate\<close> is a \<open>Date\<close> object, given by its milliseconds.
\<close>

datatype json =
    JNull
  | JBool bool
  | JNum int
  | JStr string
  | JDate int
  | JArr "json list"
  | JObj "(string \<times> json) list"

text \<open>Decimal rendering of an integer, as a template literal prints a small integer.\<close>

definition digit_char :: "nat \<Rightarrow> char" where
  "digit_char d = ''0123456789'' ! (d mod 10)"

function show_nat :: "nat \<Rightarrow> string" where
  "show_nat n = (if n < 10 then [digit_char n] else show_nat (n div 10) @ [digit_char (n mod 10)])"
  by pat_completeness auto
termination
  by (relation "measure (\<lambda>n. n)") auto

declare show_nat.simps [simp del]

definition show_int :: "int \<Rightarrow> string" where
  "show_int i = (if i < 0 then CHR ''-'' # show_nat (nat (- i)) else show_nat (nat i))"

section \<open>Multi-MCP coordinator: the execution log (multi_mcp_coordinator.ts)\<close>

record McpToolExecution =
  serverId :: int
  serverName :: string
  toolName :: string
  toolInput :: json
  toolOutput :: json
  success :: bool
  duration :: int
  timestamp :: int

text \<open>A row of the \<open>mcpServers\<close> table, as far as \<open>executeTool\<close> reads it.\<close>

record McpServerRow =
  server_id :: int
  server_name :: string
  server_enabled :: bool

text \<open>\<open>private maxHistorySize = 100\<close>\<close>

definition maxHistorySize :: nat where
  "maxHistorySize = 100"

text \<open>
  \<open>addToHistory\<close>: push, then one \<open>shift()\<close> when the length exceeds the cap.
  \<open>shift()\<close> on a non-empty array drops its first element.
\<close>

definition addToHistory :: "McpToolExecution \<Rightarrow> McpToolExecution list \<Rightarrow> McpToolExecution list" where
  "addToHistory execution executionHistory =
     (let pushed = executionHistory @ [execution]
      in if length pushed > maxHistorySize then tl pushed else pushed)"

text \<open>
  What the outside world answers during one \<open>executeTool\<close> call: the outcome of
  \<open>getClient\<close> followed by \<open>callTool\<close> (\<open>Inl\<close> the thrown error, \<open>Inr\<close> the result),
  the rows of \<open>mcpServers\<close>, and the three readings of \<open>Date.now()\<close>.
\<close>

record ToolCall =
  call_serverId :: int
  call_toolName :: string
  call_input :: json
  call_outcome :: "json + json"
  call_servers :: "McpServerRow list"
  call_startTime :: int
  call_endTime :: int
  call_timestamp :: int

record ExecuteToolResult =
  res_success :: bool
  res_output :: json
  res_duration :: int

text \<open>\<open>server?.name || `Server ${serverId}`\<close>: a missing row or an empty name falls back.\<close>

definition serverNameOf :: "McpServerRow list \<Rightarrow> int \<Rightarrow> string" where
  "serverNameOf servers sid =
     (case find (\<lambda>s. server_id s = sid) servers of
        None \<Rightarrow> ''Server '' @ show_int sid
      | Some s \<Rightarrow> if server_name s = [] then ''Server '' @ show_int sid else server_name s)"

definition executionOf :: "ToolCall \<Rightarrow> McpToolExecution" where
  "executionOf c =
     (let ok = (case call_outcome c of Inl _ \<Rightarrow> False | Inr _ \<Rightarrow> True);
          out = (case call_outcome c of Inl e \<Rightarrow> e | Inr r \<Rightarrow> r)
      in \<lparr> serverId = call_serverId c,
           serverName = serverNameOf (call_servers c) (call_serverId c),
           toolName = call_toolName c,
           toolInput = call_input c,
           toolOutput = out,
           success = ok,
           duration = call_endTime c - call_startTime c,
           timestamp = call_timestamp c \<rparr>)"

definition executeTool :: "ToolCall \<Rightarrow> McpToolExecution list \<Rightarrow> McpToolExecution list \<times> ExecuteToolResult" where
  "executeTool c executionHistory =
     (let execution = executionOf c
      in (addToHistory execution executionHistory,
          \<lparr> res_success = success execution,
            res_output = toolOutput execution,
            res_duration = duration execution \<rparr>))"

text \<open>A sequence of \<open>executeTool\<close> calls on the coordinator's log.\<close>

fun executeTools :: "ToolCall list \<Rightarrow> McpToolExecution list \<Rightarrow> McpToolExecution list" where
  "executeTools [] h = h"
| "executeTools (c # cs) h = executeTools cs (fst (executeTool c h))"

section \<open>Live transport client: reconnect schedule (websocket_sync.ts)\<close>

datatype ws_ready_state = CONNECTING | OPEN | CLOSED

record WebSocketSyncClient =
  ws :: "ws_ready_state option"
  url :: "string option"
  reconnectAttempts :: nat
  reconnectTimeout :: "int option"

text \<open>\<open>private maxReconnectAttempts = 10\<close>\<close>

definition maxReconnectAttempts :: nat where
  "maxReconnectAttempts = 10"

definition newWebSocketSyncClient :: WebSocketSyncClient where
  "newWebSocketSyncClient =
     \<lparr> ws = None, url = None, reconnectAttempts = 0, reconnectTimeout = None \<rparr>"

text \<open>\<open>this.url &&\<close>: null and the empty string are falsy.\<close>

definition url_truthy :: "string option \<Rightarrow> bool" where
  "url_truthy u = (case u of None \<Rightarrow> False | Some s \<Rightarrow> s \<noteq> [])"

text \<open>\<open>connect(url)\<close> up to the creation of the socket; a client that holds a socket returns at once.\<close>

definition connect :: "string \<Rightarrow> WebSocketSyncClient \<Rightarrow> WebSocketSyncClient" where
  "connect u c = (if ws c \<noteq> None then c else c\<lparr> url := Some u, ws := Some CONNECTING \<rparr>)"

text \<open>The socket's \<open>open\<close> event.\<close>

definition on_open :: "WebSocketSyncClient \<Rightarrow> WebSocketSyncClient" where
  "on_open c = c\<lparr> ws := Some OPEN, reconnectAttempts := 0 \<rparr>"

text \<open>
  \<open>handleDisconnect\<close>, run on the socket's \<open>close\<close> event. The second component is the
  delay handed to \<open>setTimeout\<close>, \<open>None\<close> when no reconnect is scheduled.
\<close>

definition reconnectDelay :: "nat \<Rightarrow> int" where
  "reconnectDelay attempts = min (1000 * 2 ^ attempts) 30000"

definition handleDisconnect :: "WebSocketSyncClient \<Rightarrow> WebSocketSyncClient \<times> int option" where
  "handleDisconnect c =
     (let c1 = c\<lparr> ws := None \<rparr>
      in if url_truthy (url c1) \<and> reconnectAttempts c1 < maxReconnectAttempts
         then (let n = reconnectAttempts c1 + 1;
                   delay = reconnectDelay n
               in (c1\<lparr> reconnectAttempts := n, reconnectTimeout := Some delay \<rparr>, Some delay))
         else (c1, None))"

text \<open>
  \<open>k\<close> closes in a row with no \<open>open\<close> in between: the first is the unexpected close, each
  later one ends the reconnect that the previous close scheduled (the timer's callback
  \<open>this.connect(this.url!)\<close>, then the \<open>close\<close> event of the socket that did not open).
  The result is the client afterwards and what each close handed to \<open>setTimeout\<close>.
\<close>

fun closes :: "nat \<Rightarrow> WebSocketSyncClient \<Rightarrow> WebSocketSyncClient \<times> int option list" where
  "closes 0 c = (c, [])"
| "closes (Suc k) c =
     (let (c', d) = handleDisconnect c;
          c'' = (case d of None \<Rightarrow> c' | Some _ \<Rightarrow> (case url c' of None \<Rightarrow> c' | Some u \<Rightarrow> connect u c'));
          (cf, ds) = closes k c''
      in (cf, d # ds))"

text \<open>A client that was given a URL and has not yet lost a connection.\<close>

definition sampleClient :: WebSocketSyncClient where
  "sampleClient = newWebSocketSyncClient\<lparr> url := Some ''ws://localhost:8080'' \<rparr>"

text \<open>Sample data for the execution log: one successful call, and a full log.\<close>

definition sampleCall :: ToolCall where
  "sampleCall =
     \<lparr> call_serverId = 7, call_toolName = ''search'', call_input = JObj [(''q'', JStr ''x'')],
       call_outcome = Inr (JStr ''ok''),
       call_servers = [\<lparr> server_id = 7, server_name = ''files'', server_enabled = True \<rparr>],
       call_startTime = 1000, call_endTime = 1042, call_timestamp = 1043 \<rparr>"

definition oldExecution :: McpToolExecution where
  "oldExecution =
     \<lparr> serverId = 1, serverName = ''Server 1'', toolName = ''old'', toolInput = JNull,
       toolOutput = JNull, success = False, duration = 0, timestamp = 0 \<rparr>"

section \<open>Live transport hub: the server (websocket_sync.ts)\<close>

datatype WSMessageType =
    Connect | Disconnect | Ping | Pong | ModeUpdate | ContextSync
  | StateRequest | StateResponse | Heartbeat | Error

record WSMessage =
  msg_id :: string
  msg_type :: WSMessageType
  msg_userId :: string
  msg_instanceId :: string
  msg_timestamp :: int
  msg_payload :: json

text \<open>
  A socket object of the \<open>ws\<close> library: a handle, its \<open>readyState\<close>, and the ad-hoc
  property \<open>clientId\<close> that \<open>handleMessage\<close> reads through \<open>(ws as any).clientId\<close>
  (\<open>None\<close> is \<open>undefined\<close>).
\<close>

record Socket =
  sock_handle :: nat
  sock_readyState :: ws_ready_state
  sock_clientId :: "string option"

text \<open>
  The socket the library hands to the \<open>connection\<close> listener. The library defines no
  \<open>clientId\<close> property and \<open>handleConnection\<close> assigns none: it keeps the fresh id in a
  local constant only.
\<close>

definition acceptedSocket :: "nat \<Rightarrow> Socket" where
  "acceptedSocket h = \<lparr> sock_handle = h, sock_readyState = OPEN, sock_clientId = None \<rparr>"

record WSClientInfo =
  client_ws :: Socket
  client_userId :: string
  client_instanceId :: string
  client_connectedAt :: int
  client_lastPing :: int

text \<open>
  The server object. \<open>wss\<close> is the library's server with its set of open sockets
  (\<open>None\<close> before \<open>start\<close>); \<open>clients\<close> is the \<open>Map\<close> from client id to client info, kept
  in insertion order; a handler is known by a number.
\<close>

record WebSocketSyncServer =
  wss :: "Socket list option"
  clients :: "(string \<times> WSClientInfo) list"
  handlers :: "(WSMessageType \<times> nat list) list"
  pingInterval :: bool
  server_instanceId :: string

definition newWebSocketSyncServer :: "string \<Rightarrow> WebSocketSyncServer" where
  "newWebSocketSyncServer iid =
     \<lparr> wss = None, clients = [], handlers = [], pingInterval = False, server_instanceId = iid \<rparr>"

text \<open>What a call leaves behind besides the new state.\<close>

datatype effect =
    Sent nat WSMessage
  | Closed nat
  | Handled nat WSMessage string

text \<open>\<open>send\<close>: only an open socket gets the message.\<close>

definition send :: "Socket \<Rightarrow> WSMessage \<Rightarrow> effect list" where
  "send sock message = (if sock_readyState sock = OPEN then [Sent (sock_handle sock) message] else [])"

definition start :: "WebSocketSyncServer \<Rightarrow> WebSocketSyncServer" where
  "start s = (if wss s \<noteq> None then s else s\<lparr> wss := Some [], pingInterval := True \<rparr>)"

text \<open>
  A new connection: the library adds the socket to \<open>wss.clients\<close> and calls
  \<open>handleConnection\<close>, which draws a client id and a message id, installs the listeners and
  sends the welcome message. The \<open>clients\<close> map is not touched.
\<close>

definition handleConnection ::
  "nat \<Rightarrow> string \<Rightarrow> string \<Rightarrow> int \<Rightarrow> WebSocketSyncServer \<Rightarrow> WebSocketSyncServer \<times> effect list" where
  "handleConnection h clientId mid now s =
     (let sock = acceptedSocket h
      in (s\<lparr> wss := map_option (\<lambda>socks. socks @ [sock]) (wss s) \<rparr>,
          send sock \<lparr> msg_id = mid, msg_type = Connect, msg_userId = [],
                      msg_instanceId = server_instanceId s, msg_timestamp = now,
                      msg_payload = JObj [(''clientId'', JStr clientId),
                                          (''instanceId'', JStr (server_instanceId s))] \<rparr>))"

text \<open>
  The registration step at the head of \<open>handleMessage\<close>. Inside the guard
  \<open>!this.clients.has(clientId)\<close> the lookup \<open>this.clients.get(clientId)\<close> is written out as
  the source has it; the other branch searches \<open>wss.clients\<close> for a socket whose
  \<open>clientId\<close> property equals the id.
\<close>

definition registerClient ::
  "string \<Rightarrow> WSMessage \<Rightarrow> int \<Rightarrow> int \<Rightarrow> WebSocketSyncServer \<Rightarrow> WebSocketSyncServer" where
  "registerClient clientId message now1 now2 s =
     (if map_of (clients s) clientId = None \<and> msg_userId message \<noteq> []
      then (case map_of (clients s) clientId of
              Some client \<Rightarrow>
                s\<lparr> clients := AList.update clientId
                       (client\<lparr> client_userId := msg_userId message,
                                client_instanceId := msg_instanceId message \<rparr>) (clients s) \<rparr>
            | None \<Rightarrow>
                (case find (\<lambda>sock. sock_clientId sock = Some clientId)
                        (case wss s of None \<Rightarrow> [] | Some socks \<Rightarrow> socks) of
                   Some sock \<Rightarrow>
                     s\<lparr> clients := AList.update clientId
                            \<lparr> client_ws = sock, client_userId = msg_userId message,
                              client_instanceId = msg_instanceId message,
                              client_connectedAt = now1, client_lastPing = now2 \<rparr> (clients s) \<rparr>
                 | None \<Rightarrow> s))
      else s)"

definition handlersFor :: "WebSocketSyncServer \<Rightarrow> WSMessageType \<Rightarrow> nat list" where
  "handlersFor s t = (case map_of (handlers s) t of None \<Rightarrow> [] | Some hs \<Rightarrow> hs)"

text \<open>
  \<open>handleMessage\<close>. The data is given parsed: \<open>None\<close> when \<open>JSON.parse\<close> throws or yields
  something that is not a message object, which the outer \<open>catch\<close> logs. \<open>now1\<close>, \<open>now2\<close>
  are the readings of \<open>Date.now()\<close> in the registration step, \<open>now3\<close> the one of the ping
  branch. A handler that throws is logged and the loop goes on, so every handler of the
  type is called.
\<close>

definition handleMessage ::
  "string \<Rightarrow> WSMessage option \<Rightarrow> int \<Rightarrow> int \<Rightarrow> int \<Rightarrow> WebSocketSyncServer
     \<Rightarrow> WebSocketSyncServer \<times> effect list" where
  "handleMessage clientId parsed now1 now2 now3 s =
     (case parsed of
        None \<Rightarrow> (s, [])
      | Some message \<Rightarrow>
          (let s1 = registerClient clientId message now1 now2 s
           in if msg_type message = Ping
              then (case map_of (clients s1) clientId of
                      Some client \<Rightarrow>
                        (s1\<lparr> clients := AList.update clientId
                                (client\<lparr> client_lastPing := now3 \<rparr>) (clients s1) \<rparr>,
                         send (client_ws client)
                           (message\<lparr> msg_type := Pong, msg_instanceId := server_instanceId s1 \<rparr>))
                    | None \<Rightarrow> (s1, []))
              else (s1, map (\<lambda>h. Handled h message clientId) (handlersFor s1 (msg_type message)))))"

definition handleClientDisconnect :: "string \<Rightarrow> WebSocketSyncServer \<Rightarrow> WebSocketSyncServer" where
  "handleClientDisconnect clientId s = s\<lparr> clients := AList.delete clientId (clients s) \<rparr>"

text \<open>\<open>now - client.lastPing > 90000\<close>\<close>

definition stale :: "int \<Rightarrow> WSClientInfo \<Rightarrow> bool" where
  "stale now client = (now - client_lastPing client > 90000)"

text \<open>
  \<open>pingClients\<close>: one pass over the entries of the map. A stale client is closed and
  deleted and the pass goes on (\<open>continue\<close>); every other client is sent a ping, with the
  message id drawn for it.
\<close>

fun pingPass :: "int \<Rightarrow> string \<Rightarrow> (string \<Rightarrow> string) \<Rightarrow> (string \<times> WSClientInfo) list
     \<Rightarrow> (string \<times> WSClientInfo) list \<times> effect list" where
  "pingPass now iid mid [] = ([], [])"
| "pingPass now iid mid ((clientId, client) # rest) =
     (let (kept, effs) = pingPass now iid mid rest
      in if stale now client
         then (kept, Closed (sock_handle (client_ws client)) # effs)
         else ((clientId, client) # kept,
               send (client_ws client)
                 \<lparr> msg_id = mid clientId, msg_type = Ping, msg_userId = client_userId client,
                   msg_instanceId = iid, msg_timestamp = now, msg_payload = JObj [] \<rparr> @ effs))"

definition pingClients ::
  "int \<Rightarrow> (string \<Rightarrow> string) \<Rightarrow> WebSocketSyncServer \<Rightarrow> WebSocketSyncServer \<times> effect list" where
  "pingClients now mid s =
     (let (kept, effs) = pingPass now (server_instanceId s) mid (clients s)
      in (s\<lparr> clients := kept \<rparr>, effs))"

text \<open>
  \<open>broadcast\<close> and \<open>broadcastToUser\<close> complete the message with a fresh id and the server's
  instance id and send it to the tracked clients.
\<close>

definition broadcast :: "WSMessage \<Rightarrow> string \<Rightarrow> string option \<Rightarrow> WebSocketSyncServer \<Rightarrow> effect list" where
  "broadcast message mid excludeClientId s =
     (let fullMessage = message\<lparr> msg_id := mid, msg_instanceId := server_instanceId s \<rparr>
      in concat (map (\<lambda>(clientId, client).
                        if Some clientId \<noteq> excludeClientId then send (client_ws client) fullMessage else [])
                     (clients s)))"

definition broadcastToUser :: "string \<Rightarrow> WSMessage \<Rightarrow> string \<Rightarrow> WebSocketSyncServer \<Rightarrow> effect list" where
  "broadcastToUser userId message mid s =
     (let fullMessage = message\<lparr> msg_id := mid, msg_instanceId := server_instanceId s \<rparr>
      in concat (map (\<lambda>(clientId, client).
                        if client_userId client = userId then send (client_ws client) fullMessage else [])
                     (clients s)))"

definition onMessage :: "WSMessageType \<Rightarrow> nat \<Rightarrow> WebSocketSyncServer \<Rightarrow> WebSocketSyncServer" where
  "onMessage t h s =
     s\<lparr> handlers :=
          AList.update t
            (if h \<in> set (handlersFor s t) then handlersFor s t else handlersFor s t @ [h])
            (handlers s) \<rparr>"

definition offMessage :: "WSMessageType \<Rightarrow> nat \<Rightarrow> WebSocketSyncServer \<Rightarrow> WebSocketSyncServer" where
  "offMessage t h s =
     (case map_of (handlers s) t of
        None \<Rightarrow> s
      | Some hs \<Rightarrow> s\<lparr> handlers := AList.update t (removeAll h hs) (handlers s) \<rparr>)"

definition getClientCount :: "WebSocketSyncServer \<Rightarrow> nat" where
  "getClientCount s = length (clients s)"

definition getClientsByUser :: "string \<Rightarrow> WebSocketSyncServer \<Rightarrow> nat" where
  "getClientsByUser userId s = length (filter (\<lambda>(_, c). client_userId c = userId) (clients s))"

text \<open>\<open>stop\<close> (the case where closing the listening socket succeeds).\<close>

definition stop :: "WebSocketSyncServer \<Rightarrow> WebSocketSyncServer \<times> effect list" where
  "stop s =
     (let s1 = s\<lparr> pingInterval := False \<rparr>
      in case wss s1 of
           None \<Rightarrow> (s1, [])
         | Some _ \<Rightarrow> (s1\<lparr> clients := [], wss := None \<rparr>,
                      map (\<lambda>(_, c). Closed (sock_handle (client_ws c))) (clients s1)))"

text \<open>
  Everything that can happen to a server: its public methods, and the events of the
  library and of the timer that call its private ones.
\<close>

datatype server_event =
    EvStart
  | EvConnection nat string string int
  | EvMessage string "WSMessage option" int int int
  | EvDisconnect string
  | EvPingTick int "string \<Rightarrow> string"
  | EvOn WSMessageType nat
  | EvOff WSMessageType nat
  | EvStop

fun server_step :: "server_event \<Rightarrow> WebSocketSyncServer \<Rightarrow> WebSocketSyncServer" where
  "server_step EvStart s = start s"
| "server_step (EvConnection h clientId mid now) s = fst (handleConnection h clientId mid now s)"
| "server_step (EvMessage clientId parsed now1 now2 now3) s = fst (handleMessage clientId parsed now1 now2 now3 s)"
| "server_step (EvDisconnect clientId) s = handleClientDisconnect clientId s"
| "server_step (EvPingTick now mid) s = fst (pingClients now mid s)"
| "server_step (EvOn t h) s = onMessage t h s"
| "server_step (EvOff t h) s = offMessage t h s"
| "server_step EvStop s = fst (stop s)"

fun server_run :: "server_event list \<Rightarrow> WebSocketSyncServer \<Rightarrow> WebSocketSyncServer" where
  "server_run [] s = s"
| "server_run (e # es) s = server_run es (server_step e s)"

text \<open>
  A run in which a given client keeps its \<open>lastPing\<close> fresh: \<open>lp\<close> is the client's
  \<open>lastPing\<close> so far; a ping message of the client renews it; at every heartbeat tick it is
  at most 90 seconds old. The client neither disconnects nor is the server stopped.
\<close>

fun keepsPinging :: "string \<Rightarrow> int \<Rightarrow> server_event list \<Rightarrow> bool" where
  "keepsPinging cid lp [] = True"
| "keepsPinging cid lp (EvPingTick now mid # es) = (\<not> (now - lp > 90000) \<and> keepsPinging cid lp es)"
| "keepsPinging cid lp (EvMessage clientId (Some message) now1 now2 now3 # es) =
     keepsPinging cid (if clientId = cid \<and> msg_type message = Ping then now3 else lp) es"
| "keepsPinging cid lp (EvDisconnect clientId # es) = (clientId \<noteq> cid \<and> keepsPinging cid lp es)"
| "keepsPinging cid lp (EvStop # es) = False"
| "keepsPinging cid lp (_ # es) = keepsPinging cid lp es"

text \<open>
  The state property behind the empty registry: no client is tracked and no socket of the
  library carries a \<open>clientId\<close> property.
\<close>

definition socketsOf :: "WebSocketSyncServer \<Rightarrow> Socket list" where
  "socketsOf s = (case wss s of None \<Rightarrow> [] | Some socks \<Rightarrow> socks)"

definition unregistered :: "WebSocketSyncServer \<Rightarrow> bool" where
  "unregistered s = (clients s = [] \<and> list_all (\<lambda>sock. sock_clientId sock = None) (socketsOf s))"

text \<open>
  Sample data for the heartbeat: a registry with two clients, one last heard of at time 0
  and one at 50 s, and a run in which the second one pings between two ticks.
\<close>

definition staleClient :: WSClientInfo where
  "staleClient =
     \<lparr> client_ws = \<lparr> sock_handle = 1, sock_readyState = OPEN, sock_clientId = None \<rparr>,
       client_userId = ''u1'', client_instanceId = ''i1'', client_connectedAt = 0, client_lastPing = 0 \<rparr>"

definition freshClient :: WSClientInfo where
  "freshClient =
     \<lparr> client_ws = \<lparr> sock_handle = 2, sock_readyState = OPEN, sock_clientId = None \<rparr>,
       client_userId = ''u2'', client_instanceId = ''i2'', client_connectedAt = 0, client_lastPing = 50000 \<rparr>"

definition sampleServer :: WebSocketSyncServer where
  "sampleServer =
     \<lparr> wss = Some [client_ws staleClient, client_ws freshClient],
       clients = [(''a'', staleClient), (''b'', freshClient)],
       handlers = [], pingInterval = True, server_instanceId = ''srv'' \<rparr>"

definition samplePing :: WSMessage where
  "samplePing =
     \<lparr> msg_id = ''m1'', msg_type = Ping, msg_userId = ''u2'', msg_instanceId = ''i2'',
       msg_timestamp = 130000, msg_payload = JObj [] \<rparr>"

definition sampleRun :: "server_event list" where
  "sampleRun =
     [EvPingTick 100000 (\<lambda>_. ''p1''),
      EvMessage ''b'' (Some samplePing) 130000 130000 130000,
      EvPingTick 200000 (\<lambda>_. ''p2'')]"

section \<open>Event bus client (redis_event_bus.ts)\<close>

datatype DistributedEventType =
    ModeChanged | ModeConfigUpdated | ContextCreated | ContextUpdated | ContextDeleted
  | ResponseGenerated | McpToolExecuted | McpServerAdded | McpServerRemoved
  | SyncRequest | SyncHeartbeat

fun eventTypeName :: "DistributedEventType \<Rightarrow> string" where
  "eventTypeName ModeChanged = ''mode:changed''"
| "eventTypeName ModeConfigUpdated = ''mode:config-updated''"
| "eventTypeName ContextCreated = ''context:created''"
| "eventTypeName ContextUpdated = ''context:updated''"
| "eventTypeName ContextDeleted = ''context:deleted''"
| "eventTypeName ResponseGenerated = ''response:generated''"
| "eventTypeName McpToolExecuted = ''mcp:tool-executed''"
| "eventTypeName McpServerAdded = ''mcp:server-added''"
| "eventTypeName McpServerRemoved = ''mcp:server-removed''"
| "eventTypeName SyncRequest = ''sync:request''"
| "eventTypeName SyncHeartbeat = ''sync:heartbeat''"

record DistributedEvent =
  eventId :: string
  eventType :: DistributedEventType
  event_userId :: string
  event_instanceId :: string
  event_timestamp :: int
  payload :: json
  metadata :: "json option"

text \<open>
  The bus object. \<open>publisher\<close> and \<open>subscriber\<close> are \<open>None\<close> for \<open>null\<close>, otherwise they
  hold the connection's \<open>isOpen\<close>; the handlers of an event type form a \<open>Set\<close>, kept in
  insertion order, a handler being known by a number.
\<close>

record RedisEventBus =
  publisher :: "bool option"
  subscriber :: "bool option"
  bus_handlers :: "(DistributedEventType \<times> nat list) list"
  bus_instanceId :: string

definition getInstanceId :: "RedisEventBus \<Rightarrow> string" where
  "getInstanceId bus = bus_instanceId bus"

definition busHandlersFor :: "RedisEventBus \<Rightarrow> DistributedEventType \<Rightarrow> nat list" where
  "busHandlersFor bus t = (case map_of (bus_handlers bus) t of None \<Rightarrow> [] | Some hs \<Rightarrow> hs)"

text \<open>
  \<open>handleRedisMessage\<close>. The message is given parsed (\<open>None\<close> when \<open>JSON.parse\<close> throws
  or yields no event object, which the outer \<open>catch\<close> logs). The result lists the handler
  calls made, in order; a handler that throws is logged and the loop goes on.
\<close>

definition handleRedisMessage :: "RedisEventBus \<Rightarrow> DistributedEvent option \<Rightarrow> (nat \<times> DistributedEvent) list" where
  "handleRedisMessage bus parsed =
     (case parsed of
        None \<Rightarrow> []
      | Some event \<Rightarrow>
          if event_instanceId event = bus_instanceId bus then []
          else map (\<lambda>h. (h, event)) (busHandlersFor bus (eventType event)))"

text \<open>
  \<open>publish\<close>: the envelope carries the bus's own instance id. The result is the error
  thrown, or the channel and the envelope handed to the publisher connection, whose own
  failure \<open>failure\<close> is thrown on.
\<close>

definition publish ::
  "RedisEventBus \<Rightarrow> DistributedEventType \<Rightarrow> string \<Rightarrow> json \<Rightarrow> json option \<Rightarrow> string \<Rightarrow> int
     \<Rightarrow> string option \<Rightarrow> string + (string \<times> DistributedEvent)" where
  "publish bus t userId pl md eid now failure =
     (if publisher bus = None then Inl ''Redis not initialized''
      else (let event = \<lparr> eventId = eid, eventType = t, event_userId = userId,
                          event_instanceId = bus_instanceId bus, event_timestamp = now,
                          payload = pl, metadata = md \<rparr>;
                channel = ''dyad:event:'' @ eventTypeName t
            in case failure of Some err \<Rightarrow> Inl err | None \<Rightarrow> Inr (channel, event)))"

definition onEvent :: "DistributedEventType \<Rightarrow> nat \<Rightarrow> RedisEventBus \<Rightarrow> RedisEventBus" where
  "onEvent t h bus =
     bus\<lparr> bus_handlers :=
            AList.update t
              (if h \<in> set (busHandlersFor bus t) then busHandlersFor bus t else busHandlersFor bus t @ [h])
              (bus_handlers bus) \<rparr>"

definition offEvent :: "DistributedEventType \<Rightarrow> nat \<Rightarrow> RedisEventBus \<Rightarrow> RedisEventBus" where
  "offEvent t h bus =
     (case map_of (bus_handlers bus) t of
        None \<Rightarrow> bus
      | Some hs \<Rightarrow> bus\<lparr> bus_handlers := AList.update t (removeAll h hs) (bus_handlers bus) \<rparr>)"

definition busIsConnected :: "RedisEventBus \<Rightarrow> bool" where
  "busIsConnected bus = (publisher bus = Some True \<and> subscriber bus = Some True)"

text \<open>Sample data: a bus with two handlers for \<open>mode:changed\<close>, and an event of another instance.\<close>

definition sampleBus :: RedisEventBus where
  "sampleBus =
     \<lparr> publisher = Some True, subscriber = Some True,
       bus_handlers = [(ModeChanged, [1, 2])], bus_instanceId = ''X'' \<rparr>"

definition foreignEvent :: DistributedEvent where
  "foreignEvent =
     \<lparr> eventId = ''e1'', eventType = ModeChanged, event_userId = ''u1'', event_instanceId = ''Y'',
       event_timestamp = 5, payload = JObj [(''fromMode'', JStr ''inspired''), (''toMode'', JStr ''didactic'')],
       metadata = None \<rparr>"

section \<open>Persistent store: documents and \<open>updateOne\<close> (mongodb_client.ts and the driver)\<close>

type_synonym document = "(string \<times> json) list"

text \<open>
  A filter of equalities on top-level fields, as the callers write it, and the \<open>$set\<close>
  operator, which stores each given value under its field, whatever the value is.
\<close>

definition matchesFilter :: "document \<Rightarrow> document \<Rightarrow> bool" where
  "matchesFilter flt doc = list_all (\<lambda>(k, v). map_of doc k = Some v) flt"

definition applySet :: "document \<Rightarrow> document \<Rightarrow> document" where
  "applySet sets doc = fold (\<lambda>(k, v) d. AList.update k v d) sets doc"

fun updateFirst :: "document \<Rightarrow> document \<Rightarrow> document list \<Rightarrow> document list option" where
  "updateFirst flt sets [] = None"
| "updateFirst flt sets (d # ds) =
     (if matchesFilter flt d then Some (applySet sets d # ds)
      else map_option (\<lambda>ds'. d # ds') (updateFirst flt sets ds))"

text \<open>
  Field names that start with \<open>$\<close> inside a value to be stored. Servers before version 5.0
  reject such a value with a write error; later ones store it.
\<close>

fun hasDollarKey :: "json \<Rightarrow> bool" where
  "hasDollarKey (JObj kvs) = list_ex (\<lambda>(k, v). (case k of [] \<Rightarrow> False | c # _ \<Rightarrow> c = CHR ''$'') \<or> hasDollarKey v) kvs"
| "hasDollarKey (JArr vs) = list_ex hasDollarKey vs"
| "hasDollarKey _ = False"

text \<open>
  \<open>collection.updateOne(filter, { $set: sets }, { upsert: true })\<close>. The first matching
  document is updated; when none matches, a document made of the filter's fields and the
  \<open>$set\<close> fields is inserted. \<open>Inl\<close> is the error thrown.
\<close>

definition updateOneUpsert :: "bool \<Rightarrow> document \<Rightarrow> document \<Rightarrow> document list \<Rightarrow> string + document list" where
  "updateOneUpsert acceptsDollarKeys flt sets docs =
     (if \<not> acceptsDollarKeys \<and> list_ex (\<lambda>(k, v). hasDollarKey v) sets
      then Inl ''The dollar ($) prefixed field is not valid for storage.''
      else (case updateFirst flt sets docs of
              Some docs' \<Rightarrow> Inr docs'
            | None \<Rightarrow> Inr (docs @ [applySet sets flt])))"

text \<open>
  The store client, as far as the orchestrator uses it: whether \<open>client\<close> and \<open>db\<close> are
  set, the \<open>mode_state\<close> collection, and how the server treats \<open>$\<close>-prefixed field names.
\<close>

record MongoDBClient =
  mongo_connected :: bool
  mode_state :: "document list"
  acceptsDollarKeys :: bool

definition getModeStateCollection :: "MongoDBClient \<Rightarrow> string + document list" where
  "getModeStateCollection m = (if \<not> mongo_connected m then Inl ''MongoDB not initialized'' else Inr (mode_state m))"

section \<open>Synchronization orchestrator (distributed_memory_manager.ts)\<close>

text \<open>\<open>payload.toMode\<close> where \<open>payload\<close> is \<open>any\<close>: reading a property of \<open>null\<close> throws; a
  missing property is \<open>undefined\<close>, which the driver stores as \<open>null\<close>.\<close>

definition getProperty :: "json \<Rightarrow> string \<Rightarrow> string + json" where
  "getProperty v k =
     (case v of
        JNull \<Rightarrow> Inl ''Cannot read properties of null''
      | JObj kvs \<Rightarrow> Inr (case map_of kvs k of None \<Rightarrow> JNull | Some x \<Rightarrow> x)
      | _ \<Rightarrow> Inr JNull)"

text \<open>
  \<open>syncModeStateToMongoDB\<close>: the update document is
  \<open>{ $set: { currentMode, previousMode, updatedAt, syncVersion: { $inc: 1 } } }\<close>, so the
  value given to \<open>$set\<close> for \<open>syncVersion\<close> is the object \<open>{ $inc: 1 }\<close>. Errors are logged
  and swallowed, leaving the store as it was.
\<close>

definition syncModeStateToMongoDB :: "DistributedEvent \<Rightarrow> int \<Rightarrow> MongoDBClient \<Rightarrow> MongoDBClient" where
  "syncModeStateToMongoDB event now m =
     (case getModeStateCollection m of
        Inl _ \<Rightarrow> m
      | Inr collection \<Rightarrow>
          (case (getProperty (payload event) ''toMode'', getProperty (payload event) ''fromMode'') of
             (Inr toMode, Inr fromMode) \<Rightarrow>
               (case updateOneUpsert (acceptsDollarKeys m)
                       [(''userId'', JStr (event_userId event)), (''instanceId'', JStr (event_instanceId event))]
                       [(''currentMode'', toMode),
                        (''previousMode'', fromMode),
                        (''updatedAt'', JDate now),
                        (''syncVersion'', JObj [(''$inc'', JNum 1)])]
                       collection of
                  Inl _ \<Rightarrow> m
                | Inr collection' \<Rightarrow> m\<lparr> mode_state := collection' \<rparr>)
           | _ \<Rightarrow> m))"

text \<open>The \<open>mode:changed\<close> handler that \<open>setupRedisEventHandlers\<close> registers, as far as the store goes.\<close>

definition onModeChanged :: "DistributedEvent \<Rightarrow> int \<Rightarrow> MongoDBClient \<Rightarrow> MongoDBClient" where
  "onModeChanged event now m = (if mongo_connected m then syncModeStateToMongoDB event now m else m)"

text \<open>Reading \<open>syncVersion\<close> as the integer the schema declares; \<open>None\<close> when it is not one.\<close>

definition syncVersionOf :: "document \<Rightarrow> int option" where
  "syncVersionOf doc = (case map_of doc ''syncVersion'' of Some (JNum n) \<Rightarrow> Some n | _ \<Rightarrow> None)"

text \<open>Sample data: a store holding the mode state of instance \<open>Y\<close> at version 3.\<close>

definition sampleModeState :: document where
  "sampleModeState =
     [(''userId'', JStr ''u1''), (''instanceId'', JStr ''Y''), (''currentMode'', JStr ''inspired''),
      (''previousMode'', JNull), (''updatedAt'', JDate 1), (''syncVersion'', JNum 3)]"

definition sampleStore :: MongoDBClient where
  "sampleStore = \<lparr> mongo_connected = True, mode_state = [sampleModeState], acceptsDollarKeys = True \<rparr>"

record DistributedMemoryConfig =
  enableMongoDB :: "bool option"
  enableRedis :: "bool option"
  enableWebSocket :: "bool option"
  config_userId :: string

record DistributedMemoryManager =
  config :: "DistributedMemoryConfig option"
  wsServer :: "WebSocketSyncServer option"
  initialized :: bool

record SubsystemStatus =
  enabled :: bool
  connected :: bool
  healthy :: bool

record WebSocketStatus =
  ws_enabled :: bool
  running :: bool
  clientCount :: nat

record DistributedMemoryStatus =
  mongodb :: SubsystemStatus
  redis :: SubsystemStatus
  websocket :: WebSocketStatus
  status_instanceId :: string
  isFullyOperational :: bool

text \<open>
  What the two singletons answer during one \<open>getStatus\<close> call: \<open>isConnected()\<close> before the
  awaited health check and again when the status object is built, and whether the ping of
  the health check succeeds (\<open>healthCheck\<close> catches a failing ping and returns false).
\<close>

record Probes =
  mongoConnectedFirst :: bool
  mongoPing :: bool
  mongoConnectedThen :: bool
  redisConnectedFirst :: bool
  redisPing :: bool
  redisConnectedThen :: bool
  redisInstanceId :: string

text \<open>\<open>this.config?.enableX\<close>, read as a condition and through \<open>?? false\<close>.\<close>

definition flag :: "DistributedMemoryConfig option \<Rightarrow> (DistributedMemoryConfig \<Rightarrow> bool option) \<Rightarrow> bool option" where
  "flag cfg field = (case cfg of None \<Rightarrow> None | Some c \<Rightarrow> field c)"

definition truthy :: "bool option \<Rightarrow> bool" where
  "truthy b = (b = Some True)"

definition orFalse :: "bool option \<Rightarrow> bool" where
  "orFalse b = (case b of None \<Rightarrow> False | Some x \<Rightarrow> x)"

definition getStatus :: "Probes \<Rightarrow> DistributedMemoryManager \<Rightarrow> DistributedMemoryStatus" where
  "getStatus p m =
     (let mongoHealth = (if mongoConnectedFirst p then mongoPing p else False);
          redisHealth = (if redisConnectedFirst p then redisPing p else False)
      in \<lparr> mongodb = \<lparr> enabled = orFalse (flag (config m) enableMongoDB),
                       connected = mongoConnectedThen p,
                       healthy = mongoHealth \<rparr>,
           redis = \<lparr> enabled = orFalse (flag (config m) enableRedis),
                     connected = redisConnectedThen p,
                     healthy = redisHealth \<rparr>,
           websocket = \<lparr> ws_enabled = orFalse (flag (config m) enableWebSocket),
                         running = (wsServer m \<noteq> None),
                         clientCount = (case wsServer m of None \<Rightarrow> 0 | Some s \<Rightarrow> getClientCount s) \<rparr>,
           status_instanceId = redisInstanceId p,
           isFullyOperational =
             ((\<not> truthy (flag (config m) enableMongoDB) \<or> (mongoConnectedThen p \<and> mongoHealth))
              \<and> (\<not> truthy (flag (config m) enableRedis) \<or> (redisConnectedThen p \<and> redisHealth))
              \<and> (\<not> truthy (flag (config m) enableWebSocket) \<or> wsServer m \<noteq> None)) \<rparr>)"

text \<open>Sample data: only the bus is enabled, and it is connected but its ping fails.\<close>

definition busOnlyManager :: DistributedMemoryManager where
  "busOnlyManager =
     \<lparr> config = Some \<lparr> enableMongoDB = None, enableRedis = Some True, enableWebSocket = Some False,
                       config_userId = ''u1'' \<rparr>,
       wsServer = None, initialized = True \<rparr>"

definition busPingFails :: Probes where
  "busPingFails =
     \<lparr> mongoConnectedFirst = False, mongoPing = False, mongoConnectedThen = False,
       redisConnectedFirst = True, redisPing = False, redisConnectedThen = True,
       redisInstanceId = ''X'' \<rparr>"

section \<open>Mode state machine (mode_handlers.ts, schema.ts)\<close>

datatype AICollaborationMode = Inspired | Didactic | Parallel

fun modeName :: "AICollaborationMode \<Rightarrow> string" where
  "modeName Inspired = ''inspired''"
| "modeName Didactic = ''didactic''"
| "modeName Parallel = ''parallel''"

text \<open>
  The three tables, with the columns the handlers read or write, under their SQL names.
  A timestamp is a number.
\<close>

record ModeRow =
  mode_col :: AICollaborationMode
  is_active :: bool
  configuration :: "json option"
  last_activated_at :: "int option"

record CapabilityRow =
  cap_mode :: AICollaborationMode
  local_ai :: bool
  external_ai :: bool
  multi_channel :: bool
  offline_capable :: bool
  real_time_sync :: bool
  mcp_server_ids :: "int list option"

record HistoryRow =
  history_id :: nat
  from_mode :: "AICollaborationMode option"
  to_mode :: AICollaborationMode
  context_snapshot :: "json option"
  transition_duration :: int
  success_col :: bool
  error_message :: "string option"
  created_at :: int

record Database =
  ai_collaboration_modes :: "ModeRow list"
  mode_capabilities :: "CapabilityRow list"
  mode_transition_history :: "HistoryRow list"

record ModeCapabilityDescriptor =
  cd_mode :: AICollaborationMode
  localAI :: bool
  externalAI :: bool
  multiChannel :: bool
  offlineCapable :: bool
  realTimeSync :: bool
  mcpServerIds :: "int list option"

record AICollaborationModeStatus =
  status_mode :: AICollaborationMode
  isActive :: bool
  lastActivatedAt :: "int option"
  status_configuration :: "json option"
  capabilities :: ModeCapabilityDescriptor

record ModeTransitionRecord =
  transition_id :: nat
  fromMode :: "AICollaborationMode option"
  toMode :: AICollaborationMode
  transitionDuration :: int
  transition_success :: bool
  errorMessage :: "string option"
  createdAt :: int

record SwitchModeParams =
  targetMode :: AICollaborationMode
  contextSnapshot :: "json option"

record SwitchModeResult =
  result_mode :: AICollaborationModeStatus
  transition :: ModeTransitionRecord
  preservedContext :: "json option"

fun getDefaultCapabilities :: "AICollaborationMode \<Rightarrow> ModeCapabilityDescriptor" where
  "getDefaultCapabilities Inspired =
     \<lparr> cd_mode = Inspired, localAI = True, externalAI = False, multiChannel = False,
       offlineCapable = True, realTimeSync = False, mcpServerIds = None \<rparr>"
| "getDefaultCapabilities Didactic =
     \<lparr> cd_mode = Didactic, localAI = False, externalAI = True, multiChannel = False,
       offlineCapable = False, realTimeSync = True, mcpServerIds = None \<rparr>"
| "getDefaultCapabilities Parallel =
     \<lparr> cd_mode = Parallel, localAI = True, externalAI = True, multiChannel = True,
       offlineCapable = False, realTimeSync = True, mcpServerIds = None \<rparr>"

text \<open>\<open>(cap.mcpServerIds as number[]) || undefined\<close>: an array is truthy, also an empty one.\<close>

definition getModeWithCapabilities :: "AICollaborationMode \<Rightarrow> Database \<Rightarrow> AICollaborationModeStatus option" where
  "getModeWithCapabilities m db =
     (case filter (\<lambda>r. mode_col r = m) (ai_collaboration_modes db) of
        [] \<Rightarrow> None
      | modeRecord # _ \<Rightarrow>
          (let capabilityDescriptor =
                 (case filter (\<lambda>c. cap_mode c = m) (mode_capabilities db) of
                    cap # _ \<Rightarrow>
                      \<lparr> cd_mode = m, localAI = local_ai cap, externalAI = external_ai cap,
                        multiChannel = multi_channel cap, offlineCapable = offline_capable cap,
                        realTimeSync = real_time_sync cap, mcpServerIds = mcp_server_ids cap \<rparr>
                  | [] \<Rightarrow> getDefaultCapabilities m)
           in Some \<lparr> status_mode = mode_col modeRecord,
                     isActive = is_active modeRecord,
                     lastActivatedAt = last_activated_at modeRecord,
                     status_configuration = configuration modeRecord,
                     capabilities = capabilityDescriptor \<rparr>))"

text \<open>
  One round of the loop of \<open>ensureModesExist\<close>. \<open>mode_capabilities.mode\<close> is unique, so
  the second insert throws when a capability row of the mode is already there; the mode
  row inserted just before stays.
\<close>

definition ensureModeExists :: "int \<Rightarrow> AICollaborationMode \<Rightarrow> Database \<Rightarrow> Database \<times> string option" where
  "ensureModeExists now m db =
     (if filter (\<lambda>r. mode_col r = m) (ai_collaboration_modes db) = []
      then (let db1 = db\<lparr> ai_collaboration_modes := ai_collaboration_modes db @
                         [\<lparr> mode_col = m, is_active = (m = Inspired), configuration = None,
                            last_activated_at = (if m = Inspired then Some now else None) \<rparr>] \<rparr>;
                defaultCap = getDefaultCapabilities m
            in if list_ex (\<lambda>c. cap_mode c = m) (mode_capabilities db1)
               then (db1, Some ''UNIQUE constraint failed: mode_capabilities.mode'')
               else (db1\<lparr> mode_capabilities := mode_capabilities db1 @
                           [\<lparr> cap_mode = m, local_ai = localAI defaultCap, external_ai = externalAI defaultCap,
                              multi_channel = multiChannel defaultCap,
                              offline_capable = offlineCapable defaultCap,
                              real_time_sync = realTimeSync defaultCap, mcp_server_ids = None \<rparr>] \<rparr>,
                     None))
      else (db, None))"

fun ensureModes :: "int \<Rightarrow> AICollaborationMode list \<Rightarrow> Database \<Rightarrow> Database \<times> string option" where
  "ensureModes now [] db = (db, None)"
| "ensureModes now (m # ms) db =
     (case ensureModeExists now m db of
        (db1, Some err) \<Rightarrow> (db1, Some err)
      | (db1, None) \<Rightarrow> ensureModes now ms db1)"

definition ensureModesExist :: "int \<Rightarrow> Database \<Rightarrow> Database \<times> string option" where
  "ensureModesExist now db = ensureModes now [Inspired, Didactic, Parallel] db"

text \<open>The readings of the clocks during one \<open>mode:switch-mode\<close> call, in the order taken.\<close>

record SwitchClock =
  startTime :: int
  ensureTime :: int
  activatedTime :: int
  endTime :: int
  insertTime :: int
  failTime :: int

text \<open>The auto-increment key of a new history row.\<close>

definition nextHistoryId :: "HistoryRow list \<Rightarrow> nat" where
  "nextHistoryId rows = Suc (fold max (map history_id rows) 0)"

text \<open>\<open>currentModes[0].mode\<close> of the rows with \<open>is_active\<close>, or \<open>null\<close>.\<close>

definition currentModeOf :: "Database \<Rightarrow> AICollaborationMode option" where
  "currentModeOf db =
     (case filter is_active (ai_collaboration_modes db) of [] \<Rightarrow> None | r # _ \<Rightarrow> Some (mode_col r))"

definition deactivate :: "AICollaborationMode \<Rightarrow> Database \<Rightarrow> Database" where
  "deactivate m db =
     db\<lparr> ai_collaboration_modes :=
          map (\<lambda>r. if mode_col r = m then r\<lparr> is_active := False \<rparr> else r) (ai_collaboration_modes db) \<rparr>"

definition activate :: "AICollaborationMode \<Rightarrow> int \<Rightarrow> Database \<Rightarrow> Database" where
  "activate m now db =
     db\<lparr> ai_collaboration_modes :=
          map (\<lambda>r. if mode_col r = m then r\<lparr> is_active := True, last_activated_at := Some now \<rparr> else r)
              (ai_collaboration_modes db) \<rparr>"

text \<open>The \<open>catch\<close> branch: record the failed transition, then throw the wrapped message.\<close>

definition recordFailure ::
  "SwitchClock \<Rightarrow> SwitchModeParams \<Rightarrow> string \<Rightarrow> Database \<Rightarrow> Database \<times> (string + SwitchModeResult)" where
  "recordFailure clock params message db =
     (db\<lparr> mode_transition_history := mode_transition_history db @
           [\<lparr> history_id = nextHistoryId (mode_transition_history db),
              from_mode = None,
              to_mode = targetMode params,
              context_snapshot = None,
              transition_duration = failTime clock - startTime clock,
              success_col = False,
              error_message = Some message,
              created_at = insertTime clock \<rparr>] \<rparr>,
      Inl (''Mode switch failed: '' @ message))"

text \<open>
  The \<open>mode:switch-mode\<close> handler. The result is the database afterwards and either the
  message of the error thrown or the value returned. \<open>ensureModesExist\<close> runs before the
  \<open>try\<close>, so its error is thrown as it is.
\<close>

definition switchMode ::
  "SwitchClock \<Rightarrow> SwitchModeParams \<Rightarrow> Database \<Rightarrow> Database \<times> (string + SwitchModeResult)" where
  "switchMode clock params db =
     (case ensureModesExist (ensureTime clock) db of
        (db0, Some err) \<Rightarrow> (db0, Inl err)
      | (db0, None) \<Rightarrow>
          (let currentMode = currentModeOf db0
           in if currentMode = Some (targetMode params)
              then recordFailure clock params
                     (''Already in '' @ modeName (targetMode params) @ '' mode. No switch needed.'') db0
              else
                (let db1 = (case currentMode of Some cm \<Rightarrow> deactivate cm db0 | None \<Rightarrow> db0);
                     db2 = activate (targetMode params) (activatedTime clock) db1;
                     duration = endTime clock - startTime clock;
                     row = \<lparr> history_id = nextHistoryId (mode_transition_history db2),
                             from_mode = currentMode,
                             to_mode = targetMode params,
                             context_snapshot = contextSnapshot params,
                             transition_duration = duration,
                             success_col = True,
                             error_message = None,
                             created_at = insertTime clock \<rparr>;
                     db3 = db2\<lparr> mode_transition_history := mode_transition_history db2 @ [row] \<rparr>
                 in case getModeWithCapabilities (targetMode params) db3 of
                      None \<Rightarrow>
                        recordFailure clock params
                          (''Failed to retrieve status for mode '' @ modeName (targetMode params)) db3
                    | Some newModeStatus \<Rightarrow>
                        (db3,
                         Inr \<lparr> result_mode = newModeStatus,
                               transition =
                                 \<lparr> transition_id = history_id row,
                                   fromMode = currentMode,
                                   toMode = targetMode params,
                                   transitionDuration = duration,
                                   transition_success = True,
                                   errorMessage = None,
                                   createdAt = created_at row \<rparr>,
                               preservedContext = contextSnapshot params \<rparr>))))"

text \<open>Sample data: an empty database, and a call that takes 12 ms.\<close>

definition emptyDatabase :: Database where
  "emptyDatabase = \<lparr> ai_collaboration_modes = [], mode_capabilities = [], mode_transition_history = [] \<rparr>"

definition sampleClock :: SwitchClock where
  "sampleClock =
     \<lparr> startTime = 1000, ensureTime = 1001, activatedTime = 1005, endTime = 1012,
       insertTime = 1, failTime = 1003 \<rparr>"

text \<open>The database after \<open>ensureModesExist\<close> has seeded it at time 1001, and two requests.\<close>

definition seededDatabase :: Database where
  "seededDatabase =
     \<lparr> ai_collaboration_modes =
         [\<lparr> mode_col = Inspired, is_active = True, configuration = None, last_activated_at = Some 1001 \<rparr>,
          \<lparr> mode_col = Didactic, is_active = False, configuration = None, last_activated_at = None \<rparr>,
          \<lparr> mode_col = Parallel, is_active = False, configuration = None, last_activated_at = None \<rparr>],
       mode_capabilities =
         [\<lparr> cap_mode = Inspired, local_ai = True, external_ai = False, multi_channel = False,
            offline_capable = True, real_time_sync = False, mcp_server_ids = None \<rparr>,
          \<lparr> cap_mode = Didactic, local_ai = False, external_ai = True, multi_channel = False,
            offline_capable = False, real_time_sync = True, mcp_server_ids = None \<rparr>,
          \<lparr> cap_mode = Parallel, local_ai = True, external_ai = True, multi_channel = True,
            offline_capable = False, real_time_sync = True, mcp_server_ids = None \<rparr>],
       mode_transition_history = [] \<rparr>"


definition toInspired :: SwitchModeParams where
  "toInspired = \<lparr> targetMode = Inspired, contextSnapshot = None \<rparr>"


section \<open>Response source annotation (parallel_mode_utils.ts)\<close>




subsection \<open>\<open>JSON.stringify\<close> on the metadata object\<close>

definition hexDigit :: "nat \<Rightarrow> char" where
  "hexDigit d = ''0123456789abcdef'' ! (d mod 16)"

text \<open>\<open>QuoteJSONString\<close>: the quote, the backslash and the control characters are escaped.\<close>

definition escapeChar :: "char \<Rightarrow> string" where
  "escapeChar c =
     (if c = CHR 0x22 then [CHR 0x5C, CHR 0x22]
      else if c = CHR 0x5C then [CHR 0x5C, CHR 0x5C]
      else if c = CHR 0x08 then [CHR 0x5C, CHR ''b'']
      else if c = CHR 0x0C then [CHR 0x5C, CHR ''f'']
      else if c = CHR 0x0A then [CHR 0x5C, CHR ''n'']
      else if c = CHR 0x0D then [CHR 0x5C, CHR ''r'']
      else if c = CHR 0x09 then [CHR 0x5C, CHR ''t'']
      else if (of_char c :: nat) < 32
        then [CHR 0x5C, CHR ''u'', CHR ''0'', CHR ''0'',
              hexDigit ((of_char c :: nat) div 16), hexDigit ((of_char c :: nat) mod 16)]
      else [c])"

definition quoteJSONString :: "string \<Rightarrow> string" where
  "quoteJSONString s = CHR 0x22 # concat (map escapeChar s) @ [CHR 0x22]"



subsection \<open>\<open>annotateResponseSource\<close> and \<open>extractResponseSource\<close>\<close>








subsection \<open>\<open>JSON.parse\<close> on the text of a flat object\<close>

















chapter \<open>Properties\<close>

section \<open>The execution log is bounded\<close>

lemma shift_is_drop:
  "length h \<le> m \<Longrightarrow>
   (if length (h @ [e]) > m then tl (h @ [e]) else h @ [e]) = drop (length (h @ [e]) - m) (h @ [e])"
proof (cases "length h = m")
  case True
  then have k: "length (h @ [e]) - m = Suc 0" by simp
  have "drop (Suc 0) (h @ [e]) = tl (h @ [e])" by (simp only: drop_Suc drop_0)
  then show ?thesis unfolding k using True by simp
next
  case False
  assume "length h \<le> m"
  with False have "length (h @ [e]) - m = 0" by simp
  then show ?thesis using False \<open>length h \<le> m\<close> by simp
qed

lemma keep_last_append:
  "drop (length (drop (length xs - m) xs @ r) - m) (drop (length xs - m) xs @ r)
   = drop (length (xs @ r) - m) (xs @ r)"
proof -
  let ?k = "length xs - m"
  have a: "drop ?k xs @ r = drop ?k (xs @ r)" by simp
  have b: "length (drop ?k (xs @ r)) - m + ?k = length (xs @ r) - m" by simp
  show ?thesis unfolding a using b by (metis drop_drop)
qed

lemma addToHistory_suffix:
  "length h \<le> maxHistorySize \<Longrightarrow>
   addToHistory e h = drop (length (h @ [e]) - maxHistorySize) (h @ [e])"
  unfolding addToHistory_def Let_def by (rule shift_is_drop)

lemma addToHistory_length:
  "length h \<le> maxHistorySize \<Longrightarrow> length (addToHistory e h) \<le> maxHistorySize"
  by (simp add: addToHistory_suffix)

lemma executeTools_suffix:
  "length h \<le> maxHistorySize \<Longrightarrow>
   executeTools cs h = drop (length (h @ map executionOf cs) - maxHistorySize) (h @ map executionOf cs)"
proof (induction cs arbitrary: h)
  case Nil
  then show ?case by simp
next
  case (Cons c cs)
  let ?h1 = "addToHistory (executionOf c) h"
  let ?x = "h @ [executionOf c]"
  have l1: "length ?h1 \<le> maxHistorySize" using Cons.prems by (rule addToHistory_length)
  have e1: "?h1 = drop (length ?x - maxHistorySize) ?x"
    using Cons.prems by (rule addToHistory_suffix)
  have "executeTools (c # cs) h = executeTools cs ?h1"
    by (simp add: executeTool_def Let_def)
  also have "\<dots> = drop (length (?h1 @ map executionOf cs) - maxHistorySize) (?h1 @ map executionOf cs)"
    using Cons.IH [OF l1] .
  also have "\<dots> = drop (length (?x @ map executionOf cs) - maxHistorySize) (?x @ map executionOf cs)"
    unfolding e1 by (rule keep_last_append)
  also have "?x @ map executionOf cs = h @ map executionOf (c # cs)" by simp
  finally show ?case .
qed

text \<open>
  C10. Starting from a log of at most 100 entries (the coordinator starts with an empty
  one), every \<open>executeTool\<close> call appends exactly one entry and evicts the oldest one when
  the log would exceed 100; after any sequence of calls the log holds at most 100 entries,
  and they are the most recent ones: the last 100 of the old log followed by one entry per
  call.
\<close>

theorem executionHistory_bounded:
  assumes "length h \<le> maxHistorySize"
  shows "fst (executeTool c h) = (if length h < 100 then h @ [executionOf c] else tl h @ [executionOf c])
       \<and> length (executeTools cs h) \<le> 100
       \<and> executeTools cs h = drop (length (h @ map executionOf cs) - 100) (h @ map executionOf cs)"
proof -
  have s: "executeTools cs h = drop (length (h @ map executionOf cs) - maxHistorySize) (h @ map executionOf cs)"
    using assms by (rule executeTools_suffix)
  have 1: "length (executeTools cs h) \<le> 100"
    unfolding s using assms by (simp add: maxHistorySize_def)
  have 3: "fst (executeTool c h) = (if length h < 100 then h @ [executionOf c] else tl h @ [executionOf c])"
    using assms by (cases h) (simp_all add: executeTool_def addToHistory_def Let_def maxHistorySize_def)
  show ?thesis using 1 s 3 by (simp add: maxHistorySize_def)
qed

theorem executionHistory_bounded_witness:
  "length (replicate 100 oldExecution) \<le> maxHistorySize
   \<and> fst (executeTool sampleCall (replicate 100 oldExecution))
       = replicate 99 oldExecution @ [executionOf sampleCall]
   \<and> length (executeTools [sampleCall, sampleCall] (replicate 100 oldExecution)) \<le> 100
   \<and> executeTools [sampleCall, sampleCall] (replicate 100 oldExecution)
       = replicate 98 oldExecution @ [executionOf sampleCall, executionOf sampleCall]"
proof -
  have h: "length (replicate 100 oldExecution) \<le> maxHistorySize"
    by (simp add: maxHistorySize_def)
  have t: "tl (replicate 100 oldExecution) = replicate 99 oldExecution"
    by (simp add: tl_replicate)
  have d: "drop (length (replicate 100 oldExecution @ map executionOf [sampleCall, sampleCall]) - 100)
             (replicate 100 oldExecution @ map executionOf [sampleCall, sampleCall])
           = replicate 98 oldExecution @ [executionOf sampleCall, executionOf sampleCall]"
    by (simp add: drop_replicate)
  have l: "\<not> length (replicate 100 oldExecution) < 100" by simp
  show ?thesis
    using executionHistory_bounded [OF h, of sampleCall "[sampleCall, sampleCall]"] h
    unfolding d t if_not_P [OF l] by blast
qed

section \<open>The reconnect schedule\<close>

lemma handleDisconnect_retry:
  assumes "url c = Some u" "u \<noteq> []" "reconnectAttempts c < maxReconnectAttempts"
  shows "handleDisconnect c =
           (c\<lparr> ws := None, reconnectAttempts := Suc (reconnectAttempts c),
               reconnectTimeout := Some (reconnectDelay (Suc (reconnectAttempts c))) \<rparr>,
            Some (reconnectDelay (Suc (reconnectAttempts c))))"
  using assms by (simp add: handleDisconnect_def url_truthy_def Let_def)

lemma handleDisconnect_give_up:
  assumes "\<not> reconnectAttempts c < maxReconnectAttempts"
  shows "handleDisconnect c = (c\<lparr> ws := None \<rparr>, None)"
  using assms by (simp add: handleDisconnect_def Let_def)

lemma closes_schedule:
  assumes "url c = Some u" "u \<noteq> []" "reconnectAttempts c = a" "a \<le> maxReconnectAttempts"
  shows "snd (closes k c) =
           map (\<lambda>n. Some (reconnectDelay n)) [Suc a ..< Suc (min (a + k) maxReconnectAttempts)]
           @ replicate (k - (maxReconnectAttempts - a)) None
       \<and> reconnectAttempts (fst (closes k c)) = min (a + k) maxReconnectAttempts
       \<and> url (fst (closes k c)) = Some u"
  using assms
proof (induction k arbitrary: c a)
  case 0
  then show ?case by simp
next
  case (Suc k)
  show ?case
  proof (cases "a < maxReconnectAttempts")
    case True
    let ?d = "reconnectDelay (Suc a)"
    let ?c1 = "c\<lparr> ws := None, reconnectAttempts := Suc a, reconnectTimeout := Some ?d \<rparr>"
    let ?c2 = "connect u ?c1"
    have hd: "handleDisconnect c = (?c1, Some ?d)"
      using handleDisconnect_retry [of c u] Suc.prems True by simp
    have c2: "url ?c2 = Some u" "reconnectAttempts ?c2 = Suc a"
      by (simp_all add: connect_def)
    have step: "closes (Suc k) c = (fst (closes k ?c2), Some ?d # snd (closes k ?c2))"
      using Suc.prems(1) by (simp add: hd split_beta Let_def)
    have ih: "snd (closes k ?c2) =
           map (\<lambda>n. Some (reconnectDelay n)) [Suc (Suc a) ..< Suc (min (Suc a + k) maxReconnectAttempts)]
           @ replicate (k - (maxReconnectAttempts - Suc a)) None
       \<and> reconnectAttempts (fst (closes k ?c2)) = min (Suc a + k) maxReconnectAttempts
       \<and> url (fst (closes k ?c2)) = Some u"
      using Suc.IH [of ?c2 "Suc a"] c2 Suc.prems(2) True by simp
    have lt: "Suc a < Suc (min (a + Suc k) maxReconnectAttempts)" using True by simp
    have up: "[Suc a ..< Suc (min (a + Suc k) maxReconnectAttempts)]
              = Suc a # [Suc (Suc a) ..< Suc (min (Suc a + k) maxReconnectAttempts)]"
      using upt_conv_Cons [OF lt] by simp
    have rp: "Suc k - (maxReconnectAttempts - a) = k - (maxReconnectAttempts - Suc a)"
      using True by simp
    show ?thesis unfolding step up rp using ih by simp
  next
    case False
    with Suc.prems have a: "a = maxReconnectAttempts" by simp
    let ?c1 = "c\<lparr> ws := None \<rparr>"
    have hd: "handleDisconnect c = (?c1, None)"
      using handleDisconnect_give_up [of c] Suc.prems a by simp
    have step: "closes (Suc k) c = (fst (closes k ?c1), None # snd (closes k ?c1))"
      by (simp add: hd split_beta Let_def)
    have ih: "snd (closes k ?c1) =
           map (\<lambda>n. Some (reconnectDelay n)) [Suc a ..< Suc (min (a + k) maxReconnectAttempts)]
           @ replicate (k - (maxReconnectAttempts - a)) None
       \<and> reconnectAttempts (fst (closes k ?c1)) = min (a + k) maxReconnectAttempts
       \<and> url (fst (closes k ?c1)) = Some u"
      using Suc.IH [of ?c1 a] Suc.prems by simp
    show ?thesis unfolding step using ih a by simp
  qed
qed

text \<open>
  C6. A client with a URL and no reconnect attempt so far meets \<open>k\<close> closes in a row. The
  \<open>n\<close>-th close, for \<open>n\<close> from 1 to 10, schedules a reconnect after
  \<open>min (1000 * 2 ^ n) 30000\<close> ms; every later close schedules nothing, and so does any
  further close once ten attempts are used up. After an explicit \<open>connect\<close> whose socket
  opens, the schedule starts again at 2000 ms.
\<close>

theorem reconnect_backoff_schedule:
  assumes "url c = Some u" "u \<noteq> []" "reconnectAttempts c = 0"
  shows "snd (closes k c) =
           map (\<lambda>n. Some (min (1000 * 2 ^ n) 30000)) [1 ..< Suc (min k 10)] @ replicate (k - 10) None
       \<and> (\<forall>n. 1 \<le> n \<and> n \<le> 10 \<and> n \<le> k \<longrightarrow>
             snd (closes k c) ! (n - 1) = Some (min (1000 * 2 ^ n) 30000))
       \<and> (k \<ge> 10 \<longrightarrow> snd (handleDisconnect (fst (closes k c))) = None)
       \<and> snd (handleDisconnect (on_open (connect u (fst (closes k c))))) = Some 2000"
proof -
  have s: "snd (closes k c) =
           map (\<lambda>n. Some (reconnectDelay n)) [Suc 0 ..< Suc (min (0 + k) maxReconnectAttempts)]
           @ replicate (k - (maxReconnectAttempts - 0)) None
       \<and> reconnectAttempts (fst (closes k c)) = min (0 + k) maxReconnectAttempts
       \<and> url (fst (closes k c)) = Some u"
    using closes_schedule [of c u 0 k] assms by simp
  have 1: "snd (closes k c) =
           map (\<lambda>n. Some (min (1000 * 2 ^ n) 30000)) [1 ..< Suc (min k 10)] @ replicate (k - 10) None"
    using s by (simp add: maxReconnectAttempts_def reconnectDelay_def)
  have 2: "k \<ge> 10 \<longrightarrow> snd (handleDisconnect (fst (closes k c))) = None"
    using s handleDisconnect_give_up [of "fst (closes k c)"] by (simp add: maxReconnectAttempts_def)
  have u: "url (on_open (connect u (fst (closes k c)))) = Some u"
    using s by (simp add: on_open_def connect_def)
  have 3: "snd (handleDisconnect (on_open (connect u (fst (closes k c))))) = Some 2000"
    using handleDisconnect_retry [OF u assms(2)]
    by (simp add: on_open_def maxReconnectAttempts_def reconnectDelay_def)
  have 4: "\<forall>n. 1 \<le> n \<and> n \<le> 10 \<and> n \<le> k \<longrightarrow>
             snd (closes k c) ! (n - 1) = Some (min (1000 * 2 ^ n) 30000)"
  proof (intro allI impI)
    fix n :: nat
    assume n: "1 \<le> n \<and> n \<le> 10 \<and> n \<le> k"
    let ?f = "\<lambda>n::nat. Some (min (1000 * 2 ^ n) (30000::int))"
    let ?up = "[1 ..< Suc (min k 10)]"
    have l: "n - 1 < length ?up" using n by auto
    have "1 + (n - 1) < Suc (min k 10)" using n by auto
    then have "?up ! (n - 1) = 1 + (n - 1)" by (rule nth_upt)
    then have e: "?up ! (n - 1) = n" using n by simp
    have "snd (closes k c) ! (n - 1) = map ?f ?up ! (n - 1)"
      unfolding 1 using l by (simp only: nth_append length_map if_True)
    also have "\<dots> = ?f (?up ! (n - 1))" using l by (rule nth_map)
    also have "\<dots> = ?f n" by (simp only: e)
    finally show "snd (closes k c) ! (n - 1) = Some (min (1000 * 2 ^ n) 30000)" .
  qed
  show ?thesis using 1 2 3 4 by blast
qed

theorem reconnect_backoff_schedule_witness:
  "url sampleClient = Some ''ws://localhost:8080'' \<and> ''ws://localhost:8080'' \<noteq> []
   \<and> reconnectAttempts sampleClient = 0
   \<and> snd (closes 12 sampleClient) =
       [Some 2000, Some 4000, Some 8000, Some 16000, Some 30000, Some 30000, Some 30000,
        Some 30000, Some 30000, Some 30000, None, None]
   \<and> snd (closes 12 sampleClient) ! (5 - 1) = Some (min (1000 * 2 ^ 5) 30000)
   \<and> snd (handleDisconnect (fst (closes 12 sampleClient))) = None"
proof -
  have a: "url sampleClient = Some ''ws://localhost:8080''" "reconnectAttempts sampleClient = 0"
    by (simp_all add: sampleClient_def newWebSocketSyncClient_def)
  have b: "''ws://localhost:8080'' \<noteq> []" by simp
  have up: "[1 ..< Suc (min 12 10)] = [1,2,3,4,5,6,7,8,9,10::nat]" by (simp add: upt_rec)
  have rp: "replicate (12 - 10) (None :: int option) = [None, None]" by (simp add: numeral_eq_Suc)
  show ?thesis
    using reconnect_backoff_schedule [OF a(1) b a(2), of 12] a unfolding up rp by simp
qed

section \<open>The client registry of the hub\<close>

lemma find_no_clientId:
  "list_all (\<lambda>sock. sock_clientId sock = None) socks \<Longrightarrow>
   find (\<lambda>sock. sock_clientId sock = Some clientId) socks = None"
  by (induction socks) auto

lemma registerClient_unregistered:
  "unregistered s \<Longrightarrow> registerClient clientId message now1 now2 s = s"
  using find_no_clientId [of "socketsOf s" clientId]
  by (simp add: unregistered_def registerClient_def socketsOf_def)

lemma server_step_unregistered:
  "unregistered s \<Longrightarrow> unregistered (server_step e s)"
proof (cases e)
  case EvStart
  assume "unregistered s" then show ?thesis using EvStart
    by (auto simp: unregistered_def start_def socketsOf_def)
next
  case (EvConnection h clientId mid now)
  assume "unregistered s" then show ?thesis using EvConnection
    by (cases "wss s") (auto simp: unregistered_def handleConnection_def socketsOf_def acceptedSocket_def Let_def)
next
  case (EvMessage clientId parsed now1 now2 now3)
  assume u: "unregistered s"
  show ?thesis
  proof (cases parsed)
    case None
    then show ?thesis using u EvMessage by (simp add: handleMessage_def)
  next
    case (Some message)
    have c: "map_of (clients s) clientId = None" using u by (simp add: unregistered_def)
    show ?thesis using u EvMessage Some c
      by (simp add: handleMessage_def registerClient_unregistered Let_def)
  qed
next
  case (EvDisconnect clientId)
  assume "unregistered s" then show ?thesis using EvDisconnect
    by (simp add: unregistered_def handleClientDisconnect_def socketsOf_def)
next
  case (EvPingTick now mid)
  assume "unregistered s" then show ?thesis using EvPingTick
    by (simp add: unregistered_def pingClients_def socketsOf_def)
next
  case (EvOn t h)
  assume "unregistered s" then show ?thesis using EvOn
    by (simp add: unregistered_def onMessage_def socketsOf_def)
next
  case (EvOff t h)
  assume "unregistered s" then show ?thesis using EvOff
    by (simp add: unregistered_def offMessage_def socketsOf_def split: option.splits)
next
  case EvStop
  assume "unregistered s" then show ?thesis using EvStop
    by (simp add: unregistered_def stop_def socketsOf_def Let_def split: option.splits)
qed

lemma server_run_unregistered:
  "unregistered s \<Longrightarrow> unregistered (server_run es s)"
  by (induction es arbitrary: s) (simp_all add: server_step_unregistered)

text \<open>
  C5. In every state the server reaches from its initial one, by any sequence of starts,
  connections, inbound messages, disconnects, heartbeat ticks, handler registrations and
  stops, the \<open>clients\<close> map is empty: \<open>getClientCount\<close> is 0, and \<open>broadcast\<close> and
  \<open>broadcastToUser\<close> send nothing.
\<close>

theorem client_registry_always_empty:
  "clients (server_run es (newWebSocketSyncServer iid)) = []
   \<and> getClientCount (server_run es (newWebSocketSyncServer iid)) = 0
   \<and> broadcast message mid excludeClientId (server_run es (newWebSocketSyncServer iid)) = []
   \<and> broadcastToUser userId message mid (server_run es (newWebSocketSyncServer iid)) = []"
proof -
  have "unregistered (newWebSocketSyncServer iid)"
    by (simp add: unregistered_def newWebSocketSyncServer_def socketsOf_def)
  then have "unregistered (server_run es (newWebSocketSyncServer iid))"
    by (rule server_run_unregistered)
  then have "clients (server_run es (newWebSocketSyncServer iid)) = []"
    by (simp add: unregistered_def)
  then show ?thesis
    by (simp add: getClientCount_def broadcast_def broadcastToUser_def)
qed


section \<open>Heartbeat and staleness\<close>

lemma pingPass_filter:
  "fst (pingPass now iid mid cs) = filter (\<lambda>(k, c). \<not> stale now c) cs"
  by (induction cs) (auto simp: split_beta Let_def)

lemma pingPass_closes:
  "(k, c) \<in> set cs \<Longrightarrow> stale now c \<Longrightarrow>
   Closed (sock_handle (client_ws c)) \<in> set (snd (pingPass now iid mid cs))"
  by (induction cs) (auto simp: split_beta Let_def)

lemma map_of_filter_keep:
  "map_of cs k = Some c \<Longrightarrow> P (k, c) \<Longrightarrow> map_of (filter P cs) k = Some c"
  by (induction cs) (auto split: if_splits)

lemma stale_evicted:
  assumes "distinct (map fst cs)" "map_of cs k = Some c" "stale now c"
  shows "map_of (filter (\<lambda>(k, c). \<not> stale now c) cs) k = None"
proof -
  have "\<And>c'. (k, c') \<in> set cs \<Longrightarrow> c' = c"
    using assms(1,2) by (metis map_of_is_SomeI option.inject)
  then have "\<And>c'. (k, c') \<notin> set (filter (\<lambda>(k, c). \<not> stale now c) cs)"
    using assms(3) by auto
  then show ?thesis
    by (meson map_of_SomeD not_Some_eq)
qed

lemma server_step_keeps:
  assumes "map_of (clients s) cid = Some c" "keepsPinging cid (client_lastPing c) (e # es)"
  shows "\<exists>c'. map_of (clients (server_step e s)) cid = Some c' \<and> keepsPinging cid (client_lastPing c') es"
proof (cases e)
  case EvStart
  then show ?thesis using assms by (auto simp: start_def)
next
  case (EvConnection h clientId mid now)
  then show ?thesis using assms by (auto simp: handleConnection_def Let_def)
next
  case (EvMessage clientId parsed now1 now2 now3)
  show ?thesis
  proof (cases parsed)
    case None
    then show ?thesis using assms EvMessage by (simp add: handleMessage_def)
  next
    case (Some message)
    let ?s1 = "registerClient clientId message now1 now2 s"
    have r: "map_of (clients ?s1) cid = Some c"
      using assms(1) by (auto simp: registerClient_def update_conv' split: option.splits)
    show ?thesis
    proof (cases "msg_type message = Ping")
      case True
      show ?thesis
      proof (cases "clientId = cid")
        case True
        then show ?thesis using assms EvMessage Some r \<open>msg_type message = Ping\<close>
          by (simp add: handleMessage_def Let_def update_conv')
      next
        case False
        then show ?thesis using assms EvMessage Some r \<open>msg_type message = Ping\<close>
          by (auto simp: handleMessage_def Let_def update_conv' split: option.splits)
      qed
    next
      case False
      then show ?thesis using assms EvMessage Some r
        by (simp add: handleMessage_def Let_def)
    qed
  qed
next
  case (EvDisconnect clientId)
  then show ?thesis using assms by (auto simp: handleClientDisconnect_def delete_conv')
next
  case (EvPingTick now mid)
  have "map_of (filter (\<lambda>(k, c). \<not> stale now c) (clients s)) cid = Some c"
    using assms EvPingTick by (intro map_of_filter_keep) (simp_all add: stale_def)
  then show ?thesis using assms EvPingTick
    by (simp add: pingClients_def split_beta pingPass_filter)
next
  case (EvOn t h)
  then show ?thesis using assms by (simp add: onMessage_def)
next
  case (EvOff t h)
  then show ?thesis using assms by (simp add: offMessage_def split: option.splits)
next
  case EvStop
  then show ?thesis using assms by simp
qed

lemma server_run_keeps:
  "map_of (clients s) cid = Some c \<Longrightarrow> keepsPinging cid (client_lastPing c) es \<Longrightarrow>
   \<exists>c'. map_of (clients (server_run es s)) cid = Some c'"
proof (induction es arbitrary: s c)
  case Nil
  then show ?case by simp
next
  case (Cons e es)
  from server_step_keeps [OF Cons.prems]
  obtain c' where "map_of (clients (server_step e s)) cid = Some c'" "keepsPinging cid (client_lastPing c') es"
    by blast
  then show ?case using Cons.IH by simp
qed

text \<open>
  C4. For a client tracked in the registry: a heartbeat tick at which its \<open>lastPing\<close> is
  more than 90000 ms old closes its socket and removes it from the registry during that
  tick; a tick at which it is not leaves it in place; and over any run in which its
  \<open>lastPing\<close> is at most 90000 ms old at every tick (ping messages renewing it), it is
  still in the registry at the end.
\<close>

theorem heartbeat_staleness:
  assumes "distinct (map fst (clients s))" "map_of (clients s) cid = Some c"
  shows "(now - client_lastPing c > 90000 \<longrightarrow>
            map_of (clients (fst (pingClients now mid s))) cid = None
          \<and> Closed (sock_handle (client_ws c)) \<in> set (snd (pingClients now mid s)))
       \<and> (\<not> (now - client_lastPing c > 90000) \<longrightarrow>
            map_of (clients (fst (pingClients now mid s))) cid = Some c)
       \<and> (keepsPinging cid (client_lastPing c) es \<longrightarrow>
            (\<exists>c'. map_of (clients (server_run es s)) cid = Some c'))"
proof -
  have k: "clients (fst (pingClients now mid s)) = filter (\<lambda>(k, c). \<not> stale now c) (clients s)"
    by (simp add: pingClients_def split_beta pingPass_filter)
  have e: "snd (pingClients now mid s) = snd (pingPass now (server_instanceId s) mid (clients s))"
    by (simp add: pingClients_def split_beta)
  have m: "(cid, c) \<in> set (clients s)" using assms(2) by (rule map_of_SomeD)
  have 1: "now - client_lastPing c > 90000 \<longrightarrow>
            map_of (clients (fst (pingClients now mid s))) cid = None
          \<and> Closed (sock_handle (client_ws c)) \<in> set (snd (pingClients now mid s))"
    unfolding k e using stale_evicted [OF assms] pingPass_closes [OF m]
    by (simp add: stale_def)
  have 2: "\<not> (now - client_lastPing c > 90000) \<longrightarrow>
            map_of (clients (fst (pingClients now mid s))) cid = Some c"
    unfolding k using map_of_filter_keep [OF assms(2), of "\<lambda>(k, c). \<not> stale now c"]
    by (simp add: stale_def)
  have 3: "keepsPinging cid (client_lastPing c) es \<longrightarrow>
            (\<exists>c'. map_of (clients (server_run es s)) cid = Some c')"
    using server_run_keeps [OF assms(2)] by blast
  show ?thesis using 1 2 3 by blast
qed

theorem heartbeat_staleness_witness:
  "distinct (map fst (clients sampleServer))
   \<and> map_of (clients sampleServer) ''a'' = Some staleClient
   \<and> 100000 - client_lastPing staleClient > 90000
   \<and> map_of (clients (fst (pingClients 100000 (\<lambda>_. ''p1'') sampleServer))) ''a'' = None
   \<and> Closed 1 \<in> set (snd (pingClients 100000 (\<lambda>_. ''p1'') sampleServer))
   \<and> map_of (clients sampleServer) ''b'' = Some freshClient
   \<and> \<not> (100000 - client_lastPing freshClient > 90000)
   \<and> map_of (clients (fst (pingClients 100000 (\<lambda>_. ''p1'') sampleServer))) ''b'' = Some freshClient
   \<and> keepsPinging ''b'' (client_lastPing freshClient) sampleRun
   \<and> (\<exists>c'. map_of (clients (server_run sampleRun sampleServer)) ''b'' = Some c')"
proof -
  have d: "distinct (map fst (clients sampleServer))"
    by (simp add: sampleServer_def)
  have a: "map_of (clients sampleServer) ''a'' = Some staleClient"
    by (simp add: sampleServer_def)
  have b: "map_of (clients sampleServer) ''b'' = Some freshClient"
    by (simp add: sampleServer_def)
  have sa: "100000 - client_lastPing staleClient > 90000" "sock_handle (client_ws staleClient) = 1"
    by (simp_all add: staleClient_def)
  have fb: "\<not> (100000 - client_lastPing freshClient > 90000)"
    by (simp add: freshClient_def)
  have kp: "keepsPinging ''b'' (client_lastPing freshClient) sampleRun"
    by (simp add: freshClient_def sampleRun_def samplePing_def)
  show ?thesis
    using heartbeat_staleness [OF d a, of 100000 "\<lambda>_. ''p1''" "[]"]
          heartbeat_staleness [OF d b, of 100000 "\<lambda>_. ''p1''" sampleRun]
          d a b sa fb kp
    by simp
qed

section \<open>Self-origin filtering on the event bus\<close>

text \<open>
  C3. An inbound bus message whose event carries the receiving bus client's own instance
  id calls no handler; every handler call that \<open>handleRedisMessage\<close> makes is for an event
  whose instance id differs from the receiver's; and an event the client published itself
  carries its own id, so it calls no handler when the bus delivers it back.
\<close>

theorem self_origin_filtering:
  "(event_instanceId event = bus_instanceId bus \<longrightarrow> handleRedisMessage bus (Some event) = [])
   \<and> (\<forall>(h, e) \<in> set (handleRedisMessage bus parsed). event_instanceId e \<noteq> bus_instanceId bus)
   \<and> (publish bus t userId pl md eid now failure = Inr (channel, published) \<longrightarrow>
        event_instanceId published = bus_instanceId bus
        \<and> handleRedisMessage bus (Some published) = [])"
proof -
  have 1: "event_instanceId event = bus_instanceId bus \<longrightarrow> handleRedisMessage bus (Some event) = []"
    by (simp add: handleRedisMessage_def)
  have 2: "\<forall>(h, e) \<in> set (handleRedisMessage bus parsed). event_instanceId e \<noteq> bus_instanceId bus"
    by (cases parsed) (auto simp: handleRedisMessage_def)
  have 3: "publish bus t userId pl md eid now failure = Inr (channel, published) \<longrightarrow>
        event_instanceId published = bus_instanceId bus
        \<and> handleRedisMessage bus (Some published) = []"
    by (auto simp: publish_def handleRedisMessage_def Let_def split: if_splits option.splits)
  show ?thesis using 1 2 3 by blast
qed

theorem self_origin_filtering_witness:
  "event_instanceId (foreignEvent\<lparr> event_instanceId := ''X'' \<rparr>) = bus_instanceId sampleBus
   \<and> handleRedisMessage sampleBus (Some (foreignEvent\<lparr> event_instanceId := ''X'' \<rparr>)) = []
   \<and> handleRedisMessage sampleBus (Some foreignEvent) = [(1, foreignEvent), (2, foreignEvent)]
   \<and> event_instanceId foreignEvent \<noteq> bus_instanceId sampleBus
   \<and> publish sampleBus ModeChanged ''u1'' JNull None ''e2'' 7 None
       = Inr (''dyad:event:mode:changed'',
              \<lparr> eventId = ''e2'', eventType = ModeChanged, event_userId = ''u1'', event_instanceId = ''X'',
                event_timestamp = 7, payload = JNull, metadata = None \<rparr>)
   \<and> handleRedisMessage sampleBus
        (Some \<lparr> eventId = ''e2'', eventType = ModeChanged, event_userId = ''u1'', event_instanceId = ''X'',
                event_timestamp = 7, payload = JNull, metadata = None \<rparr>) = []"
proof -
  have a: "event_instanceId (foreignEvent\<lparr> event_instanceId := ''X'' \<rparr>) = bus_instanceId sampleBus"
    by (simp add: sampleBus_def)
  have b: "handleRedisMessage sampleBus (Some foreignEvent) = [(1, foreignEvent), (2, foreignEvent)]"
    by (simp add: handleRedisMessage_def sampleBus_def foreignEvent_def busHandlersFor_def)
  have c: "publish sampleBus ModeChanged ''u1'' JNull None ''e2'' 7 None
       = Inr (''dyad:event:mode:changed'',
              \<lparr> eventId = ''e2'', eventType = ModeChanged, event_userId = ''u1'', event_instanceId = ''X'',
                event_timestamp = 7, payload = JNull, metadata = None \<rparr>)"
    by (simp add: publish_def sampleBus_def)
  show ?thesis
    using self_origin_filtering [of "foreignEvent\<lparr> event_instanceId := ''X'' \<rparr>" sampleBus "Some foreignEvent"
            ModeChanged "''u1''" JNull None "''e2''" 7 None "''dyad:event:mode:changed''"
            "\<lparr> eventId = ''e2'', eventType = ModeChanged, event_userId = ''u1'', event_instanceId = ''X'',
                event_timestamp = 7, payload = JNull, metadata = None \<rparr>"]
          a b c
    by (simp add: sampleBus_def)
qed

section \<open>The status report of the orchestrator\<close>

text \<open>
  C7. In the status that \<open>getStatus\<close> returns, \<open>isFullyOperational\<close> holds exactly when
  every subsystem reported as enabled is reported as up: connected and healthy for the
  store and the bus, running for the transport (the report has no other field for it).
  So it is true when nothing is enabled, false as soon as one enabled subsystem is not
  up, and independent of the subsystems that are not enabled.
\<close>

theorem isFullyOperational_enabled_only:
  "isFullyOperational (getStatus p m) =
     ((enabled (mongodb (getStatus p m)) \<longrightarrow>
         connected (mongodb (getStatus p m)) \<and> healthy (mongodb (getStatus p m)))
      \<and> (enabled (redis (getStatus p m)) \<longrightarrow>
         connected (redis (getStatus p m)) \<and> healthy (redis (getStatus p m)))
      \<and> (ws_enabled (websocket (getStatus p m)) \<longrightarrow> running (websocket (getStatus p m))))
   \<and> (\<not> enabled (mongodb (getStatus p m)) \<and> \<not> enabled (redis (getStatus p m))
        \<and> \<not> ws_enabled (websocket (getStatus p m)) \<longrightarrow> isFullyOperational (getStatus p m))"
  by (cases "config m")
     (auto simp: getStatus_def Let_def flag_def truthy_def orFalse_def split: option.splits)

theorem isFullyOperational_enabled_only_witness:
  "enabled (redis (getStatus busPingFails busOnlyManager))
   \<and> \<not> healthy (redis (getStatus busPingFails busOnlyManager))
   \<and> \<not> enabled (mongodb (getStatus busPingFails busOnlyManager))
   \<and> \<not> ws_enabled (websocket (getStatus busPingFails busOnlyManager))
   \<and> \<not> isFullyOperational (getStatus busPingFails busOnlyManager)
   \<and> isFullyOperational (getStatus busPingFails (busOnlyManager\<lparr> config := None \<rparr>))"
proof -
  have a: "enabled (redis (getStatus busPingFails busOnlyManager))"
    "\<not> healthy (redis (getStatus busPingFails busOnlyManager))"
    "\<not> enabled (mongodb (getStatus busPingFails busOnlyManager))"
    "\<not> ws_enabled (websocket (getStatus busPingFails busOnlyManager))"
    by (simp_all add: getStatus_def busPingFails_def busOnlyManager_def flag_def orFalse_def Let_def)
  have b: "\<not> enabled (redis (getStatus busPingFails (busOnlyManager\<lparr> config := None \<rparr>)))"
    "\<not> enabled (mongodb (getStatus busPingFails (busOnlyManager\<lparr> config := None \<rparr>)))"
    "\<not> ws_enabled (websocket (getStatus busPingFails (busOnlyManager\<lparr> config := None \<rparr>)))"
    by (simp_all add: getStatus_def flag_def orFalse_def Let_def)
  show ?thesis
    using isFullyOperational_enabled_only [of busPingFails busOnlyManager]
          isFullyOperational_enabled_only [of busPingFails "busOnlyManager\<lparr> config := None \<rparr>"]
          a b
    by blast
qed


section \<open>The sync version of a stored mode state\<close>

lemma applySet_syncVersion:
  "syncVersionOf (applySet [(a, x), (b, y), (c, z), (''syncVersion'', JObj kvs)] d) = None"
  by (simp add: applySet_def syncVersionOf_def update_conv')

lemma updateFirst_documents:
  "updateFirst flt sets docs = Some docs' \<Longrightarrow> d' \<in> set docs' \<Longrightarrow>
   d' \<in> set docs \<or> (\<exists>d \<in> set docs. d' = applySet sets d)"
proof (induction docs arbitrary: docs')
  case Nil
  then show ?case by simp
next
  case (Cons d ds)
  show ?case
  proof (cases "matchesFilter flt d")
    case True
    then show ?thesis using Cons.prems by auto
  next
    case False
    then obtain ds' where "updateFirst flt sets ds = Some ds'" "docs' = d # ds'"
      using Cons.prems(1) by auto
    then show ?thesis using Cons.IH [of ds'] Cons.prems(2) by auto
  qed
qed

text \<open>
  Whatever the store holds and whatever event arrives, a document found in \<open>mode_state\<close>
  after the sync was there before or has a \<open>syncVersion\<close> that is not an integer: the
  sync never stores a raised version.
\<close>

lemma sync_never_raises_version:
  assumes "d' \<in> set (mode_state (onModeChanged event now m))"
  shows "d' \<in> set (mode_state m) \<or> syncVersionOf d' = None"
proof -
  let ?sets = "\<lambda>t f. [(''currentMode'', t), (''previousMode'', f), (''updatedAt'', JDate now),
                       (''syncVersion'', JObj [(''$inc'', JNum 1)])]"
  let ?flt = "[(''userId'', JStr (event_userId event)), (''instanceId'', JStr (event_instanceId event))]"
  have w: "\<And>t f docs'. updateOneUpsert (acceptsDollarKeys m) ?flt (?sets t f) (mode_state m) = Inr docs'
             \<Longrightarrow> d' \<in> set docs' \<Longrightarrow> d' \<in> set (mode_state m) \<or> syncVersionOf d' = None"
  proof -
    fix t f docs'
    assume u: "updateOneUpsert (acceptsDollarKeys m) ?flt (?sets t f) (mode_state m) = Inr docs'"
       and d: "d' \<in> set docs'"
    show "d' \<in> set (mode_state m) \<or> syncVersionOf d' = None"
    proof (cases "updateFirst ?flt (?sets t f) (mode_state m)")
      case None
      then have "docs' = mode_state m @ [applySet (?sets t f) ?flt]"
        using u by (simp add: updateOneUpsert_def split: if_splits)
      then show ?thesis using d applySet_syncVersion by auto
    next
      case (Some ds)
      then have "docs' = ds" using u by (simp add: updateOneUpsert_def split: if_splits)
      then show ?thesis using updateFirst_documents [OF Some, of d'] d applySet_syncVersion by auto
    qed
  qed
  show ?thesis
    using assms w
    by (auto simp: onModeChanged_def syncModeStateToMongoDB_def getModeStateCollection_def
             split: if_splits sum.splits prod.splits)
qed


text \<open>
  C8 (the code at its failing input). The store holds the mode state of instance \<open>Y\<close> at
  \<open>syncVersion\<close> 3 and a \<open>mode:changed\<close> event of that instance arrives. After the sync the
  document's \<open>syncVersion\<close> is the object \<open>{ $inc: 1 }\<close>, no longer an integer.
\<close>

theorem syncVersion_replaced_by_document:
  "syncVersionOf (hd (mode_state sampleStore)) = Some 3
   \<and> mode_state (onModeChanged foreignEvent 9 sampleStore) =
       [[(''userId'', JStr ''u1''), (''instanceId'', JStr ''Y''), (''currentMode'', JStr ''didactic''),
         (''previousMode'', JStr ''inspired''), (''updatedAt'', JDate 9),
         (''syncVersion'', JObj [(''$inc'', JNum 1)])]]
   \<and> syncVersionOf (hd (mode_state (onModeChanged foreignEvent 9 sampleStore))) = None"
  by (simp add: onModeChanged_def syncModeStateToMongoDB_def getModeStateCollection_def
        sampleStore_def sampleModeState_def foreignEvent_def getProperty_def updateOneUpsert_def
        matchesFilter_def applySet_def syncVersionOf_def)

section \<open>Switching modes\<close>

lemma ensureModeExists_history:
  "mode_transition_history (fst (ensureModeExists now m db)) = mode_transition_history db"
  by (simp add: ensureModeExists_def Let_def)



lemma ensureModes_history:
  "mode_transition_history (fst (ensureModes now ms db)) = mode_transition_history db"
proof (induction ms arbitrary: db)
  case Nil
  then show ?case by simp
next
  case (Cons m ms)
  obtain db1 e where s: "ensureModeExists now m db = (db1, e)" by (cases "ensureModeExists now m db")
  have h: "mode_transition_history db1 = mode_transition_history db"
    using ensureModeExists_history [of now m db] s by simp
  show ?case using s h Cons.IH [of db1] by (cases e) simp_all
qed




lemma ensureModesExist_history:
  "ensureModesExist now db = (db0, e) \<Longrightarrow> mode_transition_history db0 = mode_transition_history db"
  using ensureModes_history [of now "[Inspired, Didactic, Parallel]" db]
  by (simp add: ensureModesExist_def)









text \<open>
  C2. The tables are seeded without error and the active mode read equals the target. Then
  the call throws the already-active error, wrapped as a mode-switch failure, and the
  database differs from the seeded one by exactly one appended history row: not a success,
  \<open>to_mode\<close> the target, and \<open>from_mode\<close> null, not the active mode.
\<close>

theorem switchMode_already_active:
  assumes "ensureModesExist (ensureTime clock) db = (db0, None)"
      and "currentModeOf db0 = Some (targetMode params)"
  shows "switchMode clock params db =
           (db0\<lparr> mode_transition_history := mode_transition_history db @
                  [\<lparr> history_id = nextHistoryId (mode_transition_history db),
                     from_mode = None,
                     to_mode = targetMode params,
                     context_snapshot = None,
                     transition_duration = failTime clock - startTime clock,
                     success_col = False,
                     error_message = Some (''Already in '' @ modeName (targetMode params) @ '' mode. No switch needed.''),
                     created_at = insertTime clock \<rparr>] \<rparr>,
            Inl (''Mode switch failed: Already in '' @ modeName (targetMode params) @ '' mode. No switch needed.''))"
  unfolding switchMode_def using assms ensureModesExist_history [OF assms(1)]
  by (simp add: recordFailure_def)

theorem switchMode_already_active_witness:
  "ensureModesExist (ensureTime sampleClock) emptyDatabase = (seededDatabase, None)
   \<and> currentModeOf seededDatabase = Some (targetMode toInspired)
   \<and> switchMode sampleClock toInspired emptyDatabase =
       (seededDatabase\<lparr> mode_transition_history :=
            [\<lparr> history_id = 1, from_mode = None, to_mode = Inspired, context_snapshot = None,
               transition_duration = 3, success_col = False,
               error_message = Some ''Already in inspired mode. No switch needed.'',
               created_at = 1 \<rparr>] \<rparr>,
        Inl ''Mode switch failed: Already in inspired mode. No switch needed.'')"
proof -
  have e: "ensureModesExist (ensureTime sampleClock) emptyDatabase = (seededDatabase, None)"
    by (simp add: ensureModesExist_def ensureModeExists_def Let_def emptyDatabase_def
          seededDatabase_def sampleClock_def)
  have c: "currentModeOf seededDatabase = Some (targetMode toInspired)"
    by (simp add: currentModeOf_def seededDatabase_def toInspired_def)
  have v: "mode_transition_history emptyDatabase = []" "targetMode toInspired = Inspired"
    "failTime sampleClock - startTime sampleClock = 3" "insertTime sampleClock = 1"
    "nextHistoryId [] = 1"
    by (simp_all add: emptyDatabase_def toInspired_def sampleClock_def nextHistoryId_def)
  show ?thesis
    using switchMode_already_active [OF e c] e c unfolding v by simp
qed

section \<open>Annotating and extracting the response source\<close>

subsection \<open>Where the arrow can occur\<close>






subsection \<open>The match of the marker\<close>




subsection \<open>The JSON text of the metadata\<close>












lemma quoted_last: "last (quoteJSONString s) = CHR 0x22" "quoteJSONString s \<noteq> []"
  by (simp_all add: quoteJSONString_def)








subsection \<open>Reading the JSON text back\<close>











lemma show_nat_not_Nil: "show_nat n \<noteq> []"
  by (subst show_nat.simps) simp














subsection \<open>The round trip\<close>









end
